theory Spec2Isabelle
  imports Main "HOL-Library.Word"
begin

section \<open>Data model of ChatScreen.js\<close>

text \<open>
  The delivery status of a message. The source compares and writes the string constants
  \<^verbatim>\<open>'delivered'\<close> and \<^verbatim>\<open>'read'\<close>; the server creates messages as \<^verbatim>\<open>'sent'\<close>.
  The three constants are a closed enumeration here.
\<close>

datatype status = Sent | Delivered | Read

text \<open>
  The text of a message and of the input field is a JavaScript string: a sequence of
  UTF-16 code units. Identifiers are only ever compared with \<^verbatim>\<open>===\<close>, so they are
  plain strings.
\<close>

type_synonym jsstring = "16 word list"

text \<open>
  A message as the server sends it: \<^verbatim>\<open>_id\<close>, \<^verbatim>\<open>senderId._id\<close>, \<^verbatim>\<open>receiverId._id\<close>,
  \<^verbatim>\<open>text\<close>, \<^verbatim>\<open>createdAt\<close> (as an instant in milliseconds) and \<^verbatim>\<open>status\<close>.
\<close>

record message =
  msg_id :: string
  msg_senderId :: string
  msg_receiverId :: string
  msg_text :: jsstring
  msg_createdAt :: nat
  msg_status :: status

text \<open>The two events the component emits on the socket, with their payloads.\<close>

datatype outbound =
    UpdateMessageStatus string status
  | SendMessage string string jsstring

text \<open>What an awaited promise does: it rejects (the \<^verbatim>\<open>await\<close> throws) or resolves.\<close>

datatype 'a awaited = Rejects | Resolves 'a

text \<open>The response of \<^verbatim>\<open>fetch\<close>: \<^verbatim>\<open>response.ok\<close>, \<^verbatim>\<open>response.status\<close>, \<^verbatim>\<open>response.json()\<close>.\<close>

record response =
  resp_ok :: bool
  resp_status :: nat
  resp_json :: "message list awaited"

text \<open>The exceptions that reach the \<^verbatim>\<open>catch\<close> of \<^verbatim>\<open>fetchMessages\<close>.\<close>

datatype js_error = GetTokenError | FetchError | HttpError nat | JsonError

datatype console_entry = ErrorFetchingMessages js_error | ErrorLoadingUserData

text \<open>
  The state of the component: the four \<^verbatim>\<open>useState\<close> cells the functions below touch,
  the calls of \<^verbatim>\<open>socket.emit\<close> made so far, and the calls of \<^verbatim>\<open>console.error\<close>
  made so far, both in order.
\<close>

record chat_state =
  messages :: "message list"
  inputMessage :: jsstring
  userId :: string
  isLoading :: bool
  emitted :: "outbound list"
  console :: "console_entry list"

definition initial_state :: chat_state where
  "initial_state =
     \<lparr>messages = [], inputMessage = [], userId = [], isLoading = True,
      emitted = [], console = []\<rparr>"

section \<open>The event handlers\<close>

text \<open>
  \<^verbatim>\<open>handleReceiveMessage\<close> (lines 37-45). The handler closes over \<^verbatim>\<open>receiverId\<close> (a
  route parameter) and \<^verbatim>\<open>userId\<close>; the effect that registers it is re-run whenever
  either changes, so \<^verbatim>\<open>userId\<close> is read from the state. The call of
  \<^verbatim>\<open>scrollToBottom\<close> only moves the list view and touches none of the fields above.
\<close>

definition handleReceiveMessage :: "string \<Rightarrow> message \<Rightarrow> chat_state \<Rightarrow> chat_state" where
  "handleReceiveMessage receiverId message st =
     (if msg_senderId message = receiverId \<or> msg_receiverId message = receiverId then
        let st1 = st\<lparr>messages := messages st @ [message]\<rparr> in
        if msg_receiverId message = userId st then
          st1\<lparr>emitted := emitted st1 @ [UpdateMessageStatus (msg_id message) Delivered]\<rparr>
        else st1
      else st)"

text \<open>\<^verbatim>\<open>handleMessageStatusUpdated\<close> (lines 48-52).\<close>

definition handleMessageStatusUpdated :: "string \<Rightarrow> status \<Rightarrow> chat_state \<Rightarrow> chat_state" where
  "handleMessageStatusUpdated messageId status st =
     st\<lparr>messages :=
          map (\<lambda>msg. if msg_id msg = messageId then msg\<lparr>msg_status := status\<rparr> else msg)
            (messages st)\<rparr>"

section \<open>Loading the history\<close>

text \<open>
  \<^verbatim>\<open>fetchMessages\<close> (lines 63-91) suspends at its three \<^verbatim>\<open>await\<close>s, and socket events
  are handled while it is suspended. It is therefore two steps: the part before the first
  \<^verbatim>\<open>await\<close>, and the part that runs once the token and the response are known.
\<close>

definition fetchMessages_begin :: "chat_state \<Rightarrow> chat_state" where
  "fetchMessages_begin st = st\<lparr>isLoading := True\<rparr>"

text \<open>
  The body of the \<^verbatim>\<open>try\<close> up to \<^verbatim>\<open>response.json()\<close>: either an exception or the data.
\<close>

definition fetch_data :: "string awaited \<Rightarrow> response awaited \<Rightarrow> js_error + message list" where
  "fetch_data token resp =
     (case token of
        Rejects \<Rightarrow> Inl GetTokenError
      | Resolves t \<Rightarrow>
          (case resp of
             Rejects \<Rightarrow> Inl FetchError
           | Resolves response \<Rightarrow>
               if \<not> resp_ok response then Inl (HttpError (resp_status response))
               else (case resp_json response of
                       Rejects \<Rightarrow> Inl JsonError
                     | Resolves data \<Rightarrow> Inr data)))"

text \<open>The \<^verbatim>\<open>forEach\<close> of lines 80-84, the state threaded through the calls.\<close>

fun mark_read :: "string \<Rightarrow> message list \<Rightarrow> chat_state \<Rightarrow> chat_state" where
  "mark_read senderId [] st = st"
| "mark_read senderId (message # rest) st =
     mark_read senderId rest
       (if msg_receiverId message = senderId \<and> msg_status message \<noteq> Read then
          st\<lparr>emitted := emitted st @ [UpdateMessageStatus (msg_id message) Read]\<rparr>
        else st)"

definition fetchMessages_resolve ::
    "string \<Rightarrow> string awaited \<Rightarrow> response awaited \<Rightarrow> chat_state \<Rightarrow> chat_state" where
  "fetchMessages_resolve senderId token resp st =
     (case fetch_data token resp of
        Inr data \<Rightarrow> mark_read senderId data (st\<lparr>messages := data, isLoading := False\<rparr>)
      | Inl error \<Rightarrow>
          st\<lparr>console := console st @ [ErrorFetchingMessages error], isLoading := False\<rparr>)"

text \<open>
  \<^verbatim>\<open>loadUserData\<close> (lines 22-32) once \<^verbatim>\<open>AsyncStorage.getItem\<close> has settled: a stored
  identifier that is neither \<^verbatim>\<open>null\<close> nor empty is kept and the fetch is started.
\<close>

definition loadUserData :: "string option awaited \<Rightarrow> chat_state \<Rightarrow> chat_state" where
  "loadUserData stored st =
     (case stored of
        Rejects \<Rightarrow> st\<lparr>console := console st @ [ErrorLoadingUserData]\<rparr>
      | Resolves None \<Rightarrow> st
      | Resolves (Some storedUserId) \<Rightarrow>
          if storedUserId \<noteq> [] then fetchMessages_begin (st\<lparr>userId := storedUserId\<rparr>)
          else st)"

section \<open>Sending\<close>

text \<open>
  \<^verbatim>\<open>String.prototype.trim\<close> removes the leading and trailing code units that ECMAScript
  calls WhiteSpace or LineTerminator.
\<close>

definition is_white_space :: "16 word \<Rightarrow> bool" where
  "is_white_space c \<longleftrightarrow>
     c = 0x0009 \<or> c = 0x000A \<or> c = 0x000B \<or> c = 0x000C \<or> c = 0x000D \<or> c = 0x0020 \<or>
     c = 0x00A0 \<or> c = 0x1680 \<or> (0x2000 \<le> c \<and> c \<le> 0x200A) \<or> c = 0x2028 \<or>
     c = 0x2029 \<or> c = 0x202F \<or> c = 0x205F \<or> c = 0x3000 \<or> c = 0xFEFF"

definition trim :: "jsstring \<Rightarrow> jsstring" where
  "trim s = rev (dropWhile is_white_space (rev (dropWhile is_white_space s)))"

text \<open>The input field writes what is typed into the state (\<^verbatim>\<open>onChangeText\<close>, line 149).\<close>

definition setInputMessage :: "jsstring \<Rightarrow> chat_state \<Rightarrow> chat_state" where
  "setInputMessage t st = st\<lparr>inputMessage := t\<rparr>"

text \<open>\<^verbatim>\<open>sendMessage\<close> (lines 93-104).\<close>

definition sendMessage :: "string \<Rightarrow> chat_state \<Rightarrow> chat_state" where
  "sendMessage receiverId st =
     (if trim (inputMessage st) = [] then st
      else st\<lparr>emitted := emitted st @ [SendMessage (userId st) receiverId (trim (inputMessage st))],
              inputMessage := []\<rparr>)"

section \<open>What is rendered\<close>

text \<open>
  The state cells the render of lines 106-217 reads: \<^verbatim>\<open>isLoading\<close> (line 173),
  \<^verbatim>\<open>messages\<close> (line 207), \<^verbatim>\<open>inputMessage\<close> (lines 148 and 153) and \<^verbatim>\<open>userId\<close>
  (line 107). The component has no cell for an error, and \<^verbatim>\<open>fetchMessages\<close> is called
  without its promise being awaited (line 27).
\<close>

definition rendered :: "chat_state \<Rightarrow> bool \<times> message list \<times> jsstring \<times> string" where
  "rendered st = (isLoading st, messages st, inputMessage st, userId st)"

section \<open>The notions of the specification\<close>

text \<open>
  The source has no function for the following notions; they are written from the
  specification's words, to state its sentences about the code above.
\<close>

text \<open>The status lattice \<open>sent < delivered < read\<close> and its \<open>advance\<close> (the maximum).\<close>

definition status_rank :: "status \<Rightarrow> nat" where
  "status_rank s = (case s of Sent \<Rightarrow> 0 | Delivered \<Rightarrow> 1 | Read \<Rightarrow> 2)"

definition advance :: "status \<Rightarrow> status \<Rightarrow> status" where
  "advance current proposed =
     (if status_rank current \<le> status_rank proposed then proposed else current)"

text \<open>
  The specification's \<open>compare\<close>: creation timestamp ascending, identifier ascending on a
  tie, identifiers compared as strings are (character by character).
\<close>

fun id_le :: "string \<Rightarrow> string \<Rightarrow> bool" where
  "id_le [] ys = True"
| "id_le (x # xs) [] = False"
| "id_le (x # xs) (y # ys) =
     ((of_char x :: nat) < of_char y \<or> (x = y \<and> id_le xs ys))"

definition compare_le :: "message \<Rightarrow> message \<Rightarrow> bool" where
  "compare_le a b \<longleftrightarrow>
     msg_createdAt a < msg_createdAt b \<or>
     (msg_createdAt a = msg_createdAt b \<and> id_le (msg_id a) (msg_id b))"

definition timeline_sorted :: "message list \<Rightarrow> bool" where
  "timeline_sorted ms = sorted_wrt compare_le ms"

text \<open>How many entries of a timeline carry an identifier.\<close>

definition count_id :: "string \<Rightarrow> message list \<Rightarrow> nat" where
  "count_id i ms = length (filter (\<lambda>m. msg_id m = i) ms)"

text \<open>The events emitted between a state and a later one.\<close>

definition emitted_since :: "chat_state \<Rightarrow> chat_state \<Rightarrow> outbound list" where
  "emitted_since st st' = drop (length (emitted st)) (emitted st')"

section \<open>Example values\<close>

text \<open>
  A conversation of \<open>alice\<close> (the session identity) with \<open>bob\<close> (the peer). The texts are
  \<open>hi\<close>, \<open>yo\<close> and \<open>ok\<close>.
\<close>

definition ex_first :: message where
  "ex_first = \<lparr>msg_id = ''m1'', msg_senderId = ''bob'', msg_receiverId = ''alice'',
                msg_text = [0x68, 0x69], msg_createdAt = 1000, msg_status = Sent\<rparr>"

definition ex_second :: message where
  "ex_second = \<lparr>msg_id = ''m2'', msg_senderId = ''bob'', msg_receiverId = ''alice'',
                 msg_text = [0x79, 0x6F], msg_createdAt = 2000, msg_status = Sent\<rparr>"

definition ex_own :: message where
  "ex_own = \<lparr>msg_id = ''m3'', msg_senderId = ''alice'', msg_receiverId = ''bob'',
              msg_text = [0x6F, 0x6B], msg_createdAt = 1500, msg_status = Sent\<rparr>"

definition ex_seen :: message where
  "ex_seen = \<lparr>msg_id = ''m4'', msg_senderId = ''bob'', msg_receiverId = ''alice'',
               msg_text = [0x68, 0x69], msg_createdAt = 900, msg_status = Read\<rparr>"

definition ex_stranger :: message where
  "ex_stranger = \<lparr>msg_id = ''m5'', msg_senderId = ''carol'', msg_receiverId = ''alice'',
                   msg_text = [0x68, 0x69], msg_createdAt = 3000, msg_status = Sent\<rparr>"

text \<open>A response with status 200 and the given body, and one with status 500.\<close>

definition ex_response :: "message list \<Rightarrow> response" where
  "ex_response data = \<lparr>resp_ok = True, resp_status = 200, resp_json = Resolves data\<rparr>"

definition ex_server_error :: response where
  "ex_server_error = \<lparr>resp_ok = False, resp_status = 500, resp_json = Rejects\<rparr>"

text \<open>The identity has been read from storage and the fetch is in flight.\<close>

definition ex_loading :: chat_state where
  "ex_loading = loadUserData (Resolves (Some ''alice'')) initial_state"

text \<open>Then \<open>m1\<close> arrives; then \<open>m3\<close>, the echo of a message alice sent, arrives too.\<close>

definition ex_one :: chat_state where
  "ex_one = handleReceiveMessage ''bob'' ex_first ex_loading"

definition ex_two :: chat_state where
  "ex_two = handleReceiveMessage ''bob'' ex_own ex_one"

text \<open>
  Live events while the fetch is in flight: \<open>m1\<close> and \<open>m2\<close> arrive, and \<open>m1\<close> is
  reported \<open>read\<close>.
\<close>

definition ex_live :: chat_state where
  "ex_live = handleMessageStatusUpdated ''m1'' Read (handleReceiveMessage ''bob'' ex_second ex_one)"

text \<open>
  A first load has returned \<open>m4\<close> (already \<open>read\<close>) and \<open>m3\<close> (addressed to bob), and a
  second load is in flight.
\<close>

definition ex_reloading :: chat_state where
  "ex_reloading = fetchMessages_begin
     (fetchMessages_resolve ''alice'' (Resolves ''token'')
        (Resolves (ex_response [ex_seen, ex_own])) ex_loading)"

text \<open>Three blanks, and \<open>hi\<close> between two blanks, typed into the input field.\<close>

definition ex_blank :: chat_state where
  "ex_blank = setInputMessage [0x20, 0x20, 0x20] ex_one"

definition ex_typed :: chat_state where
  "ex_typed = setInputMessage [0x20, 0x68, 0x69, 0x20] ex_one"

section \<open>Facts about the helpers\<close>

lemma ex_loading_eq:
  "ex_loading = \<lparr>messages = [], inputMessage = [], userId = ''alice'', isLoading = True,
                  emitted = [], console = []\<rparr>"
  by (simp add: ex_loading_def loadUserData_def fetchMessages_begin_def initial_state_def)

lemma ex_one_eq:
  "ex_one = \<lparr>messages = [ex_first], inputMessage = [], userId = ''alice'', isLoading = True,
              emitted = [UpdateMessageStatus ''m1'' Delivered], console = []\<rparr>"
  by (simp add: ex_one_def handleReceiveMessage_def ex_loading_eq ex_first_def)

lemma ex_two_eq:
  "ex_two = \<lparr>messages = [ex_first, ex_own], inputMessage = [], userId = ''alice'',
              isLoading = True, emitted = [UpdateMessageStatus ''m1'' Delivered], console = []\<rparr>"
  by (simp add: ex_two_def handleReceiveMessage_def ex_one_eq ex_own_def)

lemma ex_live_eq:
  "ex_live = \<lparr>messages = [ex_first\<lparr>msg_status := Read\<rparr>, ex_second], inputMessage = [],
               userId = ''alice'', isLoading = True,
               emitted = [UpdateMessageStatus ''m1'' Delivered, UpdateMessageStatus ''m2'' Delivered],
               console = []\<rparr>"
  by (simp add: ex_live_def handleMessageStatusUpdated_def handleReceiveMessage_def ex_one_eq
      ex_first_def ex_second_def)

lemma fetch_data_ex_response:
  "fetch_data (Resolves token) (Resolves (ex_response data)) = Inr data"
  by (simp add: fetch_data_def ex_response_def)

lemma ex_reloading_eq:
  "ex_reloading = \<lparr>messages = [ex_seen, ex_own], inputMessage = [], userId = ''alice'',
                    isLoading = True, emitted = [], console = []\<rparr>"
  by (simp add: ex_reloading_def fetchMessages_begin_def fetchMessages_resolve_def
      fetch_data_ex_response ex_loading_eq ex_seen_def ex_own_def)

lemma map_status_absent:
  "messageId \<notin> set (map msg_id xs) \<Longrightarrow>
   map (\<lambda>msg. if msg_id msg = messageId then msg\<lparr>msg_status := status\<rparr> else msg) xs = xs"
  by (induction xs) auto

lemma status_update_ids:
  "map msg_id (map (\<lambda>msg. if msg_id msg = messageId then msg\<lparr>msg_status := status\<rparr> else msg) xs)
     = map msg_id xs"
  by (induction xs) auto

lemma emitted_mark_read:
  "emitted (mark_read senderId data st) =
     emitted st @ map (\<lambda>m. UpdateMessageStatus (msg_id m) Read)
       (filter (\<lambda>m. msg_receiverId m = senderId \<and> msg_status m \<noteq> Read) data)"
  by (induction data arbitrary: st) auto

lemma mark_read_frame:
  "messages (mark_read senderId data st) = messages st
   \<and> isLoading (mark_read senderId data st) = isLoading st
   \<and> userId (mark_read senderId data st) = userId st
   \<and> inputMessage (mark_read senderId data st) = inputMessage st
   \<and> console (mark_read senderId data st) = console st"
  by (induction data arbitrary: st) auto

lemma below_read: "status_rank s < status_rank Read \<longleftrightarrow> s \<noteq> Read"
  by (cases s) (simp_all add: status_rank_def)

lemma count_requests_absent:
  "messageId \<notin> set (map msg_id data) \<Longrightarrow>
   count_list (map (\<lambda>m. UpdateMessageStatus (msg_id m) Read) (filter P data))
     (UpdateMessageStatus messageId Read) = 0"
  by (induction data) auto

lemma count_requests:
  "distinct (map msg_id data) \<Longrightarrow> m \<in> set data \<Longrightarrow>
   count_list (map (\<lambda>m. UpdateMessageStatus (msg_id m) Read) (filter P data))
     (UpdateMessageStatus (msg_id m) Read) = (if P m then 1 else 0)"
proof (induction data)
  case Nil
  then show ?case by simp
next
  case (Cons a data)
  have fresh: "msg_id a \<notin> set (map msg_id data)" using Cons.prems by simp
  show ?case
  proof (cases "m = a")
    case True
    then show ?thesis using fresh count_requests_absent [of "msg_id a" data P] by simp
  next
    case False
    then have in_rest: "m \<in> set data" using Cons.prems by simp
    have "msg_id m \<in> set (map msg_id data)" using in_rest by simp
    then have "msg_id m \<noteq> msg_id a" using fresh by metis
    then show ?thesis using Cons in_rest by simp
  qed
qed

lemma fold_receive_accepted:
  "\<forall>m \<in> set ms. msg_senderId m = receiverId \<or> msg_receiverId m = receiverId \<Longrightarrow>
   messages (fold (handleReceiveMessage receiverId) ms st) = messages st @ ms"
proof (induction ms arbitrary: st)
  case Nil
  then show ?case by simp
next
  case (Cons m ms)
  have step: "messages (handleReceiveMessage receiverId m st) = messages st @ [m]"
    using Cons.prems by (simp add: handleReceiveMessage_def Let_def)
  have "messages (fold (handleReceiveMessage receiverId) ms (handleReceiveMessage receiverId m st))
          = messages (handleReceiveMessage receiverId m st) @ ms"
    using Cons.IH Cons.prems by simp
  then show ?case using step by simp
qed

section \<open>Status updates\<close>

text \<open>
  C7. A status update whose identifier no entry of the timeline carries changes nothing:
  the whole state, the timeline included, is the one before; no entry is added and none
  is modified.
\<close>

theorem status_update_absent_noop:
  "messageId \<notin> set (map msg_id (messages st)) \<Longrightarrow>
   handleMessageStatusUpdated messageId status st = st"
  by (simp add: handleMessageStatusUpdated_def map_status_absent)

text \<open>C7 at the timeline \<open>m1\<close>, for an update of \<open>m2\<close>.\<close>

theorem status_update_absent_noop_witness:
  "''m2'' \<notin> set (map msg_id (messages ex_one))
   \<and> handleMessageStatusUpdated ''m2'' Read ex_one = ex_one"
proof -
  have h: "''m2'' \<notin> set (map msg_id (messages ex_one))"
    by (simp add: ex_one_eq ex_first_def)
  show ?thesis using h status_update_absent_noop [OF h, of Read] by simp
qed

text \<open>
  C10. A status update whose identifier is in the timeline keeps the length of the
  timeline and the order of its identifiers; an entry with another identifier is left as
  it is, and a matching entry changes in its status field only. Nothing else of the state
  changes.
\<close>

theorem status_update_frame:
  assumes "messageId \<in> set (map msg_id (messages st))" and "i < length (messages st)"
  shows "length (messages (handleMessageStatusUpdated messageId status st)) = length (messages st)
    \<and> map msg_id (messages (handleMessageStatusUpdated messageId status st))
         = map msg_id (messages st)
    \<and> (msg_id (messages st ! i) \<noteq> messageId \<longrightarrow>
         messages (handleMessageStatusUpdated messageId status st) ! i = messages st ! i)
    \<and> (msg_id (messages st ! i) = messageId \<longrightarrow>
         messages (handleMessageStatusUpdated messageId status st) ! i
           = (messages st ! i)\<lparr>msg_status := status\<rparr>)
    \<and> inputMessage (handleMessageStatusUpdated messageId status st) = inputMessage st
    \<and> userId (handleMessageStatusUpdated messageId status st) = userId st
    \<and> isLoading (handleMessageStatusUpdated messageId status st) = isLoading st
    \<and> emitted (handleMessageStatusUpdated messageId status st) = emitted st
    \<and> console (handleMessageStatusUpdated messageId status st) = console st"
  using assms by (simp add: handleMessageStatusUpdated_def status_update_ids)

text \<open>
  C10 at the timeline \<open>m1, m3\<close>, for an update of \<open>m1\<close> to \<open>read\<close>: \<open>m3\<close> is as before and
  \<open>m1\<close> differs in its status only.
\<close>

theorem status_update_frame_witness:
  "''m1'' \<in> set (map msg_id (messages ex_two))
   \<and> 1 < length (messages ex_two)
   \<and> length (messages (handleMessageStatusUpdated ''m1'' Read ex_two)) = 2
   \<and> map msg_id (messages (handleMessageStatusUpdated ''m1'' Read ex_two)) = [''m1'', ''m3'']
   \<and> messages (handleMessageStatusUpdated ''m1'' Read ex_two) ! 1 = ex_own
   \<and> messages (handleMessageStatusUpdated ''m1'' Read ex_two) ! 0
       = ex_first\<lparr>msg_status := Read\<rparr>"
proof -
  have h: "''m1'' \<in> set (map msg_id (messages ex_two))"
    by (simp add: ex_two_eq ex_first_def)
  have l0: "0 < length (messages ex_two)"
    by (simp add: ex_two_eq)
  have l1: "1 < length (messages ex_two)"
    by (simp add: ex_two_eq)
  have ids: "msg_id ex_first = ''m1''" "msg_id ex_own = ''m3''"
    by (simp_all add: ex_first_def ex_own_def)
  show ?thesis
    using h l1 status_update_frame [OF h l0, of Read] status_update_frame [OF h l1, of Read]
    by (simp add: ex_two_eq ids)
qed

text \<open>
  C2, as the specification states it, fails. On the live timeline \<open>m1\<close> is \<open>read\<close>; a
  status update proposing \<open>delivered\<close> for it arrives late, and \<open>m1\<close> goes back to
  \<open>delivered\<close>, where the maximum under the lattice is \<open>read\<close>.
\<close>

theorem status_update_regresses:
  "map msg_id (messages ex_live) = [''m1'', ''m2'']
   \<and> map msg_status (messages ex_live) = [Read, Sent]
   \<and> map msg_status (messages (handleMessageStatusUpdated ''m1'' Delivered ex_live))
       = [Delivered, Sent]
   \<and> advance Read Delivered = Read
   \<and> status_rank Delivered < status_rank Read"
  by (simp add: handleMessageStatusUpdated_def ex_live_eq ex_first_def ex_second_def
      advance_def status_rank_def)

text \<open>
  C2, amended. A status update replaces the status of every entry with its identifier by
  the proposed status. That is the maximum of the current and the proposed status whenever
  the proposed status is not below the current one, and a proposed status equal to the
  current one leaves the entry as it is.
\<close>

theorem status_update_overwrites:
  assumes "i < length (messages st)" and "msg_id (messages st ! i) = messageId"
  shows "msg_status (messages (handleMessageStatusUpdated messageId proposed st) ! i) = proposed
    \<and> (status_rank (msg_status (messages st ! i)) \<le> status_rank proposed \<longrightarrow>
         msg_status (messages (handleMessageStatusUpdated messageId proposed st) ! i)
           = advance (msg_status (messages st ! i)) proposed)
    \<and> (proposed = msg_status (messages st ! i) \<longrightarrow>
         messages (handleMessageStatusUpdated messageId proposed st) ! i = messages st ! i)"
  using assms by (auto simp: handleMessageStatusUpdated_def advance_def)

text \<open>C2, amended, at the timeline \<open>m1\<close> (status \<open>sent\<close>) for the update to \<open>delivered\<close>.\<close>

theorem status_update_overwrites_witness:
  "0 < length (messages ex_one)
   \<and> msg_id (messages ex_one ! 0) = ''m1''
   \<and> status_rank (msg_status (messages ex_one ! 0)) \<le> status_rank Delivered
   \<and> msg_status (messages (handleMessageStatusUpdated ''m1'' Delivered ex_one) ! 0) = Delivered
   \<and> advance (msg_status (messages ex_one ! 0)) Delivered = Delivered"
proof -
  have l: "0 < length (messages ex_one)"
    by (simp add: ex_one_eq)
  have k: "msg_id (messages ex_one ! 0) = ''m1''"
    by (simp add: ex_one_eq ex_first_def)
  show ?thesis
    using l k status_update_overwrites [OF l k, of Delivered]
    by (simp add: ex_one_eq ex_first_def status_rank_def advance_def)
qed

section \<open>Receiving a message\<close>

text \<open>
  C8. A received message changes the timeline exactly when its sender or its receiver is
  the peer of the open conversation; it is then appended. Otherwise the whole state is the
  one before: the timeline keeps its length and nothing is emitted.
\<close>

theorem receive_applied_iff_peer:
  "(messages (handleReceiveMessage receiverId message st) \<noteq> messages st
      \<longleftrightarrow> msg_senderId message = receiverId \<or> msg_receiverId message = receiverId)
   \<and> (msg_senderId message = receiverId \<or> msg_receiverId message = receiverId \<longrightarrow>
        messages (handleReceiveMessage receiverId message st) = messages st @ [message])
   \<and> (\<not> (msg_senderId message = receiverId \<or> msg_receiverId message = receiverId) \<longrightarrow>
        handleReceiveMessage receiverId message st = st)"
  by (simp add: handleReceiveMessage_def Let_def)

text \<open>
  C8 in the conversation with \<open>bob\<close>: \<open>m2\<close>, from bob, is appended to the timeline \<open>m1\<close>,
  and \<open>m5\<close>, from carol to alice, leaves the state alone.
\<close>

theorem receive_applied_iff_peer_witness:
  "(msg_senderId ex_second = ''bob'' \<or> msg_receiverId ex_second = ''bob'')
   \<and> messages (handleReceiveMessage ''bob'' ex_second ex_one) = [ex_first, ex_second]
   \<and> \<not> (msg_senderId ex_stranger = ''bob'' \<or> msg_receiverId ex_stranger = ''bob'')
   \<and> handleReceiveMessage ''bob'' ex_stranger ex_one = ex_one"
proof -
  have a: "msg_senderId ex_second = ''bob'' \<or> msg_receiverId ex_second = ''bob''"
    by (simp add: ex_second_def)
  have b: "\<not> (msg_senderId ex_stranger = ''bob'' \<or> msg_receiverId ex_stranger = ''bob'')"
    by (simp add: ex_stranger_def)
  have tl: "messages ex_one = [ex_first]"
    by (simp add: ex_one_eq)
  show ?thesis
    using a b receive_applied_iff_peer [of "''bob''" ex_second ex_one]
      receive_applied_iff_peer [of "''bob''" ex_stranger ex_one]
    by (simp add: tl)
qed

text \<open>
  C3, as the specification states it, fails: the same message received twice is in the
  timeline twice.
\<close>

theorem receive_twice_duplicates:
  "count_id ''m1'' (messages (handleReceiveMessage ''bob'' ex_first
      (handleReceiveMessage ''bob'' ex_first ex_loading))) = 2
   \<and> \<not> distinct (map msg_id (messages (handleReceiveMessage ''bob'' ex_first
      (handleReceiveMessage ''bob'' ex_first ex_loading))))"
  by (simp add: handleReceiveMessage_def ex_loading_eq ex_first_def count_id_def)

text \<open>
  C3, amended. Applying the message-received handler twice with the same message of the
  open conversation appends the message twice: the timeline is the one before followed by
  two entries for the message, so the number of entries with its identifier grows by two.
\<close>

theorem receive_twice_appends_twice:
  assumes "msg_senderId message = receiverId \<or> msg_receiverId message = receiverId"
  shows "messages (handleReceiveMessage receiverId message
                     (handleReceiveMessage receiverId message st))
           = messages st @ [message, message]
    \<and> count_id (msg_id message) (messages (handleReceiveMessage receiverId message
                     (handleReceiveMessage receiverId message st)))
           = count_id (msg_id message) (messages st) + 2"
  using assms by (simp add: handleReceiveMessage_def Let_def count_id_def)

text \<open>C3, amended, for \<open>m2\<close> received twice on the timeline \<open>m1\<close>.\<close>

theorem receive_twice_appends_twice_witness:
  "(msg_senderId ex_second = ''bob'' \<or> msg_receiverId ex_second = ''bob'')
   \<and> messages (handleReceiveMessage ''bob'' ex_second
                  (handleReceiveMessage ''bob'' ex_second ex_one))
       = [ex_first, ex_second, ex_second]"
proof -
  have a: "msg_senderId ex_second = ''bob'' \<or> msg_receiverId ex_second = ''bob''"
    by (simp add: ex_second_def)
  have tl: "messages ex_one = [ex_first]"
    by (simp add: ex_one_eq)
  show ?thesis
    using a receive_twice_appends_twice [OF a, of ex_one] by (simp add: tl)
qed

text \<open>
  C4, as the specification states it, fails: \<open>m2\<close> (created at 2000) arrives before \<open>m3\<close>
  (created at 1500); both are accepted, and the timeline holds them in that order.
\<close>

theorem timeline_not_sorted:
  "messages (handleReceiveMessage ''bob'' ex_own (handleReceiveMessage ''bob'' ex_second ex_loading))
     = [ex_second, ex_own]
   \<and> \<not> timeline_sorted (messages (handleReceiveMessage ''bob'' ex_own
           (handleReceiveMessage ''bob'' ex_second ex_loading)))"
  by (simp add: handleReceiveMessage_def ex_loading_eq ex_second_def ex_own_def
      timeline_sorted_def compare_le_def)

text \<open>
  C4, amended. After a successful history load followed by any sequence of accepted
  message-received events, the timeline is the fetched history in the order the server
  returned it, followed by the received messages in the order they arrived.
\<close>

theorem timeline_in_arrival_order:
  assumes "fetch_data token resp = Inr data"
    and "\<forall>m \<in> set ms. msg_senderId m = receiverId \<or> msg_receiverId m = receiverId"
  shows "messages (fold (handleReceiveMessage receiverId) ms
                     (fetchMessages_resolve senderId token resp st)) = data @ ms"
  using assms by (simp add: fold_receive_accepted fetchMessages_resolve_def mark_read_frame)

text \<open>C4, amended: the history \<open>m1\<close>, then \<open>m2\<close> and \<open>m3\<close> arriving in that order.\<close>

theorem timeline_in_arrival_order_witness:
  "fetch_data (Resolves ''token'') (Resolves (ex_response [ex_first])) = Inr [ex_first]
   \<and> (msg_senderId ex_second = ''bob'' \<or> msg_receiverId ex_second = ''bob'')
   \<and> (msg_senderId ex_own = ''bob'' \<or> msg_receiverId ex_own = ''bob'')
   \<and> messages (fold (handleReceiveMessage ''bob'') [ex_second, ex_own]
        (fetchMessages_resolve ''alice'' (Resolves ''token'') (Resolves (ex_response [ex_first]))
           ex_loading))
       = [ex_first, ex_second, ex_own]"
proof -
  have f: "fetch_data (Resolves ''token'') (Resolves (ex_response [ex_first])) = Inr [ex_first]"
    by (rule fetch_data_ex_response)
  have a: "msg_senderId ex_second = ''bob'' \<or> msg_receiverId ex_second = ''bob''"
    by (simp add: ex_second_def)
  have b: "msg_senderId ex_own = ''bob'' \<or> msg_receiverId ex_own = ''bob''"
    by (simp add: ex_own_def)
  have all: "\<forall>m \<in> set [ex_second, ex_own]. msg_senderId m = ''bob'' \<or> msg_receiverId m = ''bob''"
    using a b by simp
  have "messages (fold (handleReceiveMessage ''bob'') [ex_second, ex_own]
        (fetchMessages_resolve ''alice'' (Resolves ''token'') (Resolves (ex_response [ex_first]))
           ex_loading)) = [ex_first] @ [ex_second, ex_own]"
    by (rule timeline_in_arrival_order [OF f all])
  then show ?thesis using f a b by simp
qed

section \<open>The history load\<close>

text \<open>
  C1, as the specification states it, fails. While the fetch is in flight \<open>m1\<close> and \<open>m2\<close>
  arrive and \<open>m1\<close> is reported \<open>read\<close>; the fetch then returns \<open>m1\<close> alone, with status
  \<open>sent\<close>. Afterwards \<open>m2\<close> is gone from the timeline, and \<open>m1\<close> is \<open>sent\<close> where the
  lattice gives \<open>read\<close>.
\<close>

theorem fetchMessages_drops_live_message:
  "map msg_id (messages ex_live) = [''m1'', ''m2'']
   \<and> map msg_status (messages ex_live) = [Read, Sent]
   \<and> map msg_id (messages (fetchMessages_resolve ''alice'' (Resolves ''token'')
         (Resolves (ex_response [ex_first])) ex_live)) = [''m1'']
   \<and> map msg_status (messages (fetchMessages_resolve ''alice'' (Resolves ''token'')
         (Resolves (ex_response [ex_first])) ex_live)) = [Sent]
   \<and> advance Sent Read = Read"
  by (simp add: fetchMessages_resolve_def fetch_data_ex_response mark_read_frame ex_live_eq
      ex_first_def ex_second_def advance_def status_rank_def)

text \<open>
  C1, amended. When the history fetch resolves successfully, the resulting timeline is
  exactly the fetched history, in the order returned, whatever live events were applied
  before: every field of every entry, the status included, comes from the fetch.
\<close>

theorem fetchMessages_replaces_timeline:
  assumes "fetch_data token resp = Inr data"
  shows "messages (fetchMessages_resolve senderId token resp st) = data"
  using assms by (simp add: fetchMessages_resolve_def mark_read_frame)

text \<open>C1, amended, for the fetch of \<open>m1, m3\<close> resolving on the live timeline above.\<close>

theorem fetchMessages_replaces_timeline_witness:
  "fetch_data (Resolves ''token'') (Resolves (ex_response [ex_first, ex_own]))
     = Inr [ex_first, ex_own]
   \<and> messages (fetchMessages_resolve ''alice'' (Resolves ''token'')
        (Resolves (ex_response [ex_first, ex_own])) ex_live) = [ex_first, ex_own]"
proof -
  have f: "fetch_data (Resolves ''token'') (Resolves (ex_response [ex_first, ex_own]))
             = Inr [ex_first, ex_own]"
    by (rule fetch_data_ex_response)
  show ?thesis
    using f fetchMessages_replaces_timeline [OF f, of "''alice''" ex_live] by simp
qed

text \<open>
  C6. On a successful history load the events emitted are, in the order of the returned
  messages, one status-update request with status \<open>read\<close> for each returned message whose
  receiver is the session identity and whose status is below \<open>read\<close>, and nothing else.
  With identifiers unique in the history, each such message has exactly one request
  carrying its identifier, and a message that is already \<open>read\<close> or is addressed to the
  peer has none.
\<close>

theorem fetchMessages_marks_read:
  assumes "fetch_data token resp = Inr data"
  shows "emitted (fetchMessages_resolve senderId token resp st) =
           emitted st @ map (\<lambda>m. UpdateMessageStatus (msg_id m) Read)
             (filter (\<lambda>m. msg_receiverId m = senderId
                          \<and> status_rank (msg_status m) < status_rank Read) data)
    \<and> (distinct (map msg_id data) \<longrightarrow>
         (\<forall>m \<in> set data.
            count_list (emitted_since st (fetchMessages_resolve senderId token resp st))
              (UpdateMessageStatus (msg_id m) Read)
            = (if msg_receiverId m = senderId \<and> status_rank (msg_status m) < status_rank Read
               then 1 else 0)))"
  using assms
  by (simp add: fetchMessages_resolve_def emitted_mark_read below_read emitted_since_def
      count_requests)

text \<open>
  C6 for the history \<open>m1, m3, m4\<close>: \<open>m1\<close> is for alice and \<open>sent\<close>, \<open>m3\<close> is for bob, \<open>m4\<close>
  is \<open>read\<close>. One request, for \<open>m1\<close>, is emitted.
\<close>

theorem fetchMessages_marks_read_witness:
  "fetch_data (Resolves ''token'') (Resolves (ex_response [ex_first, ex_own, ex_seen]))
     = Inr [ex_first, ex_own, ex_seen]
   \<and> distinct (map msg_id [ex_first, ex_own, ex_seen])
   \<and> emitted (fetchMessages_resolve ''alice'' (Resolves ''token'')
        (Resolves (ex_response [ex_first, ex_own, ex_seen])) ex_loading)
       = [UpdateMessageStatus ''m1'' Read]
   \<and> count_list (emitted_since ex_loading (fetchMessages_resolve ''alice'' (Resolves ''token'')
        (Resolves (ex_response [ex_first, ex_own, ex_seen])) ex_loading))
        (UpdateMessageStatus ''m1'' Read) = 1
   \<and> count_list (emitted_since ex_loading (fetchMessages_resolve ''alice'' (Resolves ''token'')
        (Resolves (ex_response [ex_first, ex_own, ex_seen])) ex_loading))
        (UpdateMessageStatus ''m3'' Read) = 0
   \<and> count_list (emitted_since ex_loading (fetchMessages_resolve ''alice'' (Resolves ''token'')
        (Resolves (ex_response [ex_first, ex_own, ex_seen])) ex_loading))
        (UpdateMessageStatus ''m4'' Read) = 0"
proof -
  have f: "fetch_data (Resolves ''token'') (Resolves (ex_response [ex_first, ex_own, ex_seen]))
             = Inr [ex_first, ex_own, ex_seen]"
    by (rule fetch_data_ex_response)
  have d: "distinct (map msg_id [ex_first, ex_own, ex_seen])"
    by (simp add: ex_first_def ex_own_def ex_seen_def)
  have e: "emitted ex_loading = []"
    by (simp add: ex_loading_eq)
  show ?thesis
    using f d fetchMessages_marks_read [OF f, of "''alice''" ex_loading]
    by (simp add: e emitted_since_def ex_first_def ex_own_def ex_seen_def status_rank_def)
qed

text \<open>
  C9, as the specification states it, fails in its third part: the failure is not
  reported to the consumer. With the timeline \<open>m4, m3\<close> on screen and a second load in
  flight, a response with status 500 and a successful response returning the same two
  messages leave the same loading flag, timeline, input and identity to render, and emit
  the same events: the consumer cannot tell the failure from the success.
\<close>

theorem fetchMessages_failure_not_signalled:
  "fetch_data (Resolves ''token'') (Resolves ex_server_error) = Inl (HttpError 500)
   \<and> fetch_data (Resolves ''token'') (Resolves (ex_response [ex_seen, ex_own]))
       = Inr [ex_seen, ex_own]
   \<and> rendered (fetchMessages_resolve ''alice'' (Resolves ''token'') (Resolves ex_server_error)
        ex_reloading)
       = rendered (fetchMessages_resolve ''alice'' (Resolves ''token'')
           (Resolves (ex_response [ex_seen, ex_own])) ex_reloading)
   \<and> emitted (fetchMessages_resolve ''alice'' (Resolves ''token'') (Resolves ex_server_error)
        ex_reloading)
       = emitted (fetchMessages_resolve ''alice'' (Resolves ''token'')
           (Resolves (ex_response [ex_seen, ex_own])) ex_reloading)"
proof -
  have f: "fetch_data (Resolves ''token'') (Resolves ex_server_error) = Inl (HttpError 500)"
    by (simp add: fetch_data_def ex_server_error_def)
  have s: "fetch_data (Resolves ''token'') (Resolves (ex_response [ex_seen, ex_own]))
             = Inr [ex_seen, ex_own]"
    by (rule fetch_data_ex_response)
  have r: "msg_status ex_seen = Read" "msg_receiverId ex_own = ''bob''"
    by (simp_all add: ex_seen_def ex_own_def)
  show ?thesis
    by (simp add: fetchMessages_resolve_def f s r rendered_def ex_reloading_eq)
qed

text \<open>
  C9, amended. When the history load fails (the token cannot be got, the transport fails,
  the response is not a success, or its body cannot be read) the step still yields a
  state: the timeline is the one before the failure, with every live event applied so
  far; nothing is emitted; the loading flag is cleared. The failure is only logged, by
  one call of \<^verbatim>\<open>console.error\<close>: what is rendered is what a successful load returning
  the timeline already held would render.
\<close>

theorem fetchMessages_failure_only_logged:
  assumes "fetch_data token resp = Inl error"
  shows "messages (fetchMessages_resolve senderId token resp st) = messages st
    \<and> isLoading (fetchMessages_resolve senderId token resp st) = False
    \<and> emitted (fetchMessages_resolve senderId token resp st) = emitted st
    \<and> console (fetchMessages_resolve senderId token resp st)
         = console st @ [ErrorFetchingMessages error]
    \<and> userId (fetchMessages_resolve senderId token resp st) = userId st
    \<and> inputMessage (fetchMessages_resolve senderId token resp st) = inputMessage st
    \<and> (fetch_data token' resp' = Inr (messages st) \<longrightarrow>
         rendered (fetchMessages_resolve senderId token resp st)
           = rendered (fetchMessages_resolve senderId token' resp' st))"
  using assms by (simp add: fetchMessages_resolve_def rendered_def mark_read_frame)

text \<open>
  C9, amended, for a transport failure and for a response with status 500, both on the
  live timeline \<open>m1, m2\<close>; the transport failure is compared with a successful load
  returning that timeline.
\<close>

theorem fetchMessages_failure_only_logged_witness:
  "fetch_data (Resolves ''token'') Rejects = Inl FetchError
   \<and> messages (fetchMessages_resolve ''alice'' (Resolves ''token'') Rejects ex_live)
       = messages ex_live
   \<and> isLoading (fetchMessages_resolve ''alice'' (Resolves ''token'') Rejects ex_live) = False
   \<and> emitted (fetchMessages_resolve ''alice'' (Resolves ''token'') Rejects ex_live)
       = emitted ex_live
   \<and> console (fetchMessages_resolve ''alice'' (Resolves ''token'') Rejects ex_live)
       = [ErrorFetchingMessages FetchError]
   \<and> fetch_data (Resolves ''token'') (Resolves (ex_response (messages ex_live)))
       = Inr (messages ex_live)
   \<and> rendered (fetchMessages_resolve ''alice'' (Resolves ''token'') Rejects ex_live)
       = rendered (fetchMessages_resolve ''alice'' (Resolves ''token'')
           (Resolves (ex_response (messages ex_live))) ex_live)
   \<and> fetch_data (Resolves ''token'') (Resolves ex_server_error) = Inl (HttpError 500)
   \<and> messages (fetchMessages_resolve ''alice'' (Resolves ''token'') (Resolves ex_server_error)
        ex_live) = messages ex_live
   \<and> isLoading (fetchMessages_resolve ''alice'' (Resolves ''token'') (Resolves ex_server_error)
        ex_live) = False
   \<and> console (fetchMessages_resolve ''alice'' (Resolves ''token'') (Resolves ex_server_error)
        ex_live) = [ErrorFetchingMessages (HttpError 500)]"
proof -
  have t: "fetch_data (Resolves ''token'') Rejects = Inl FetchError"
    by (simp add: fetch_data_def)
  have h: "fetch_data (Resolves ''token'') (Resolves ex_server_error) = Inl (HttpError 500)"
    by (simp add: fetch_data_def ex_server_error_def)
  have s: "fetch_data (Resolves ''token'') (Resolves (ex_response (messages ex_live)))
             = Inr (messages ex_live)"
    by (rule fetch_data_ex_response)
  have c: "console ex_live = []"
    by (simp add: ex_live_eq)
  show ?thesis
    using t h s
      fetchMessages_failure_only_logged [OF t, of "''alice''" ex_live "Resolves ''token''"
        "Resolves (ex_response (messages ex_live))"]
      fetchMessages_failure_only_logged [OF h, of "''alice''" ex_live]
    by (simp add: c)
qed

section \<open>Sending a message\<close>

text \<open>
  C5. When the trimmed input is empty, sending leaves the whole state as it is, so no
  event is emitted. When the trimmed input is not empty, sending emits exactly one event,
  a send-message carrying the session identity as sender, the peer as receiver and the
  trimmed input; the timeline is not touched.
\<close>

theorem sendMessage_trimmed:
  "(trim (inputMessage st) = [] \<longrightarrow> sendMessage receiverId st = st)
   \<and> (trim (inputMessage st) \<noteq> [] \<longrightarrow>
        emitted (sendMessage receiverId st)
          = emitted st @ [SendMessage (userId st) receiverId (trim (inputMessage st))]
        \<and> messages (sendMessage receiverId st) = messages st)"
  by (simp add: sendMessage_def)

text \<open>C5 for an input of three blanks and for the input \<open>hi\<close> between two blanks.\<close>

theorem sendMessage_trimmed_witness:
  "trim (inputMessage ex_blank) = []
   \<and> sendMessage ''bob'' ex_blank = ex_blank
   \<and> trim (inputMessage ex_typed) \<noteq> []
   \<and> emitted (sendMessage ''bob'' ex_typed)
       = emitted ex_typed @ [SendMessage ''alice'' ''bob'' [0x68, 0x69]]"
proof -
  have b: "trim (inputMessage ex_blank) = []"
    by (simp add: ex_blank_def setInputMessage_def trim_def is_white_space_def)
  have t: "trim (inputMessage ex_typed) = [0x68, 0x69]"
    by (simp add: ex_typed_def setInputMessage_def trim_def is_white_space_def)
  have u: "userId ex_typed = ''alice''"
    by (simp add: ex_typed_def setInputMessage_def ex_one_eq)
  show ?thesis
    using b t sendMessage_trimmed [of ex_blank "''bob''"] sendMessage_trimmed [of ex_typed "''bob''"]
    by (simp add: u)
qed

end
